theory Spec2Isabelle
  imports Main
begin

section \<open>The syntax tree read by py2cs\<close>

text \<open>
  py2cs.py walks the tree that Python's \<^verbatim>\<open>ast.parse\<close> returns. The tree is modelled
  as far as the walker reads it: the fields a function of py2cs.py never touches
  (decorators, keywords, line numbers, type comments) are left out.

  An operator node is told apart by its class only. \<open>op_tag\<close> lists every operator class of
  Python's \<^verbatim>\<open>ast\<close> module: the binary operators, the boolean operators, the unary operators
  and the comparison operators. \<open>Pow_op\<close> and \<open>Not_op\<close> are the classes \<^verbatim>\<open>Pow\<close> and
  \<^verbatim>\<open>Not\<close>.
\<close>

datatype op_tag =
    Add | Sub | Mult | MatMult | Div | Mod | Pow_op | LShift | RShift
  | BitOr | BitXor | BitAnd | FloorDiv
  | And | Or
  | Invert | Not_op | UAdd | USub
  | Eq | NotEq | Lt | LtE | Gt | GtE | Is | IsNot | In | NotIn

text \<open>\<^verbatim>\<open>op.__class__.__name__\<close>\<close>

fun class_name :: "op_tag \<Rightarrow> string" where
  "class_name Add = ''Add''"
| "class_name Sub = ''Sub''"
| "class_name Mult = ''Mult''"
| "class_name MatMult = ''MatMult''"
| "class_name Div = ''Div''"
| "class_name Mod = ''Mod''"
| "class_name Pow_op = ''Pow''"
| "class_name LShift = ''LShift''"
| "class_name RShift = ''RShift''"
| "class_name BitOr = ''BitOr''"
| "class_name BitXor = ''BitXor''"
| "class_name BitAnd = ''BitAnd''"
| "class_name FloorDiv = ''FloorDiv''"
| "class_name And = ''And''"
| "class_name Or = ''Or''"
| "class_name Invert = ''Invert''"
| "class_name Not_op = ''Not''"
| "class_name UAdd = ''UAdd''"
| "class_name USub = ''USub''"
| "class_name Eq = ''Eq''"
| "class_name NotEq = ''NotEq''"
| "class_name Lt = ''Lt''"
| "class_name LtE = ''LtE''"
| "class_name Gt = ''Gt''"
| "class_name GtE = ''GtE''"
| "class_name Is = ''Is''"
| "class_name IsNot = ''IsNot''"
| "class_name In = ''In''"
| "class_name NotIn = ''NotIn''"

text \<open>
  The value of a numeric literal (\<^verbatim>\<open>num.n\<close>): a Python integer, unbounded, or a float or
  complex number, which is carried as the text that \<^verbatim>\<open>str\<close> gives for it.
\<close>

datatype number = IntNum int | OtherNum string

text \<open>
  What the attribute \<^verbatim>\<open>value\<close> of a node holds, for the node classes that the walker
  has no case for: the class has no such attribute, or the attribute holds \<^verbatim>\<open>None\<close>, a
  Python object that is no node (carried as the name of its type), or a node.
\<close>

datatype 'a attr = NoAttr | AttrNone | AttrObject string | AttrNode 'a

text \<open>\<^verbatim>\<open>argument_list.args\<close>, each argument by its name \<^verbatim>\<open>argument.arg\<close>.\<close>

datatype arguments = Arguments "string list"

text \<open>
  The expression classes: the nine that \<^verbatim>\<open>walk_expression\<close> tests for, and \<open>OtherExpr\<close>
  for a node of any other class, carried as the name of its class and its \<^verbatim>\<open>value\<close>
  attribute. \<open>BoolOp\<close> has the fields \<^verbatim>\<open>op\<close> and \<^verbatim>\<open>values\<close>, \<open>Compare\<close> the fields
  \<^verbatim>\<open>left\<close>, \<^verbatim>\<open>ops\<close> and \<^verbatim>\<open>comparators\<close>.
\<close>

datatype expr =
    BinOp expr op_tag expr
  | BoolOp op_tag "expr list"
  | Compare expr "op_tag list" "expr list"
  | UnaryOp op_tag expr
  | Lambda arguments expr
  | Call expr "expr list"
  | Num number
  | Str string
  | Name string
  | OtherExpr string "expr attr"

text \<open>
  The statement classes: the eight that \<^verbatim>\<open>walk_statement\<close> tests for, and \<open>OtherStmt\<close>
  for a node of any other class. \<open>FunctionDef\<close> is name, args, body, returns; \<open>ClassDef\<close>
  is name, bases, body; \<open>Assign\<close> is targets, value; \<open>For\<close> is target, iter, body, orelse;
  \<open>While\<close> and \<open>If_stmt\<close> (the class \<^verbatim>\<open>If\<close>) are test, body, orelse. The value of
  \<open>Return\<close> and the annotation \<^verbatim>\<open>returns\<close> may be \<^verbatim>\<open>None\<close>.
\<close>

datatype stmt =
    FunctionDef string arguments "stmt list" "expr option"
  | ClassDef string "expr list" "stmt list"
  | Return "expr option"
  | Assign "expr list" expr
  | For expr expr "stmt list" "stmt list"
  | While expr "stmt list" "stmt list"
  | If_stmt expr "stmt list" "stmt list"
  | Expr expr
  | OtherStmt string "expr attr"

datatype module = Module "stmt list"

text \<open>What \<^verbatim>\<open>get_expression_return_type\<close> may be given: \<^verbatim>\<open>None\<close> or a node.\<close>

datatype node = NoneNode | ExprNode expr | StmtNode stmt

section \<open>Errors\<close>

text \<open>
  Every \<^verbatim>\<open>raise\<close> of py2cs.py raises \<^verbatim>\<open>Exception\<close> with a message; the three messages
  are the first three errors, each with the name of the class that the message shows.
  \<open>AttributeError c a\<close> is Python's own error for reading the attribute \<open>a\<close> of an object
  of class \<open>c\<close> that has none, \<open>IndexError\<close> the one for an index out of range,
  \<open>ValueError\<close> the one that \<^verbatim>\<open>str\<close> raises for an integer with too many digits.
\<close>

datatype error =
    UnsupportedStatement string
  | UnsupportedExpression string
  | UnsupportedOperator string
  | AttributeError string string
  | IndexError
  | ValueError

section \<open>Strings\<close>

text \<open>\<^verbatim>\<open>sep.join(items)\<close>\<close>

fun join :: "string \<Rightarrow> string list \<Rightarrow> string" where
  "join sep [] = []"
| "join sep [x] = x"
| "join sep (x # y # ys) = x @ sep @ join sep (y # ys)"

text \<open>
  \<^verbatim>\<open>str\<close> of a number: decimal digits, with a minus sign below zero. CPython refuses to
  convert an integer of more than \<^verbatim>\<open>sys.get_int_max_str_digits()\<close> digits, the sign not
  counted, and raises \<^verbatim>\<open>ValueError\<close>; py2cs.py never changes the limit, so it is the
  interpreter's default of 4300.
\<close>

fun str_nat :: "nat \<Rightarrow> string" where
  "str_nat n =
    (if n < 10 then [''0123456789'' ! n]
     else str_nat (n div 10) @ [''0123456789'' ! (n mod 10)])"

declare str_nat.simps [simp del]

definition int_max_str_digits :: nat where
  "int_max_str_digits = 4300"

definition str_number :: "number \<Rightarrow> error + string" where
  "str_number n =
    (case n of
       IntNum i \<Rightarrow>
         (if int_max_str_digits < length (str_nat (nat \<bar>i\<bar>)) then Inl ValueError
          else Inr (if i < 0 then ''-'' @ str_nat (nat \<bar>i\<bar>) else str_nat (nat \<bar>i\<bar>)))
     | OtherNum s \<Rightarrow> Inr s)"

section \<open>The operator table\<close>

definition get_bin_op_symbol :: "op_tag \<Rightarrow> error + string" where
  "get_bin_op_symbol op =
    (if class_name op = ''Add'' then Inr ''+''
     else if class_name op = ''Sub'' then Inr ''-''
     else if class_name op = ''Mult'' then Inr ''*''
     else if class_name op = ''Div'' then Inr ''/''
     else if class_name op = ''Mod'' then Inr ''%''
     else if class_name op = ''Pow'' then Inr ''**''
     else if class_name op = ''LShift'' then Inr ''<<''
     else if class_name op = ''RShift'' then Inr ''>>''
     else if class_name op = ''BitOr'' then Inr ''|''
     else if class_name op = ''BitXor'' then Inr ''^''
     else if class_name op = ''BitAnd'' then Inr ''&''
     else if class_name op = ''FloorDiv'' then Inr ''//''
     else if class_name op = ''Eq'' then Inr ''==''
     else if class_name op = ''NotEq'' then Inr ''!=''
     else if class_name op = ''Lt'' then Inr ''<''
     else if class_name op = ''LtE'' then Inr ''<=''
     else if class_name op = ''Gt'' then Inr ''>''
     else if class_name op = ''GtE'' then Inr ''>=''
     else Inl (UnsupportedOperator (class_name op)))"

section \<open>Builtins\<close>

definition lookup_call_builtins :: "string \<Rightarrow> string" where
  "lookup_call_builtins function_name =
    (if function_name = ''print'' then ''Console.WriteLine''
     else if function_name = ''input'' then ''Console.ReadLine''
     else function_name)"

section \<open>Expressions\<close>

definition walk_num :: "number \<Rightarrow> error + string" where
  "walk_num n = str_number n"

definition walk_str :: "string \<Rightarrow> error + string" where
  "walk_str s = Inr (''\"'' @ s @ ''\"'')"

definition walk_name :: "string \<Rightarrow> error + string" where
  "walk_name ident = Inr ident"

fun walk_argument_list :: "arguments \<Rightarrow> string" where
  "walk_argument_list (Arguments as) = join '', '' (map (\<lambda>a. ''dynamic '' @ a) as)"

text \<open>
  The walkers of one node class take the fields of the node. Python evaluates a chain of
  \<^verbatim>\<open>+\<close> from the left, so the first operand that raises decides the error; the nested
  \<open>case\<close>s follow that order. \<open>walk_comp_items\<close> and \<open>walk_expression_items\<close> are the
  list comprehensions of \<^verbatim>\<open>walk_comp_op\<close> and \<^verbatim>\<open>walk_expression_list\<close>; the first runs
  over \<^verbatim>\<open>range(len(comparators))\<close> and reads \<^verbatim>\<open>ops[i]\<close>, which raises when the
  operators run out.

  A \<open>BoolOp\<close> is handed to \<^verbatim>\<open>walk_bin_op\<close>, which reads \<^verbatim>\<open>bin_op.left\<close> first; a
  \<open>BoolOp\<close> has no such attribute.

  The depth of the interpreter's call stack is not modelled: where CPython raises
  \<^verbatim>\<open>RecursionError\<close> in a nested call on a tree deeper than its recursion limit allows,
  the walkers here go on. What is proved about a node is therefore stated from the results
  of the walkers on its children.
\<close>

function (sequential) walk_expression :: "expr \<Rightarrow> error + string"
  and walk_bin_op :: "expr \<Rightarrow> op_tag \<Rightarrow> expr \<Rightarrow> error + string"
  and walk_comp_op :: "expr \<Rightarrow> op_tag list \<Rightarrow> expr list \<Rightarrow> error + string"
  and walk_comp_items :: "op_tag list \<Rightarrow> expr list \<Rightarrow> error + string list"
  and walk_unary_op :: "op_tag \<Rightarrow> expr \<Rightarrow> error + string"
  and walk_lambda :: "arguments \<Rightarrow> expr \<Rightarrow> error + string"
  and walk_call :: "expr \<Rightarrow> expr list \<Rightarrow> error + string"
  and walk_expression_list :: "expr list \<Rightarrow> error + string"
  and walk_expression_items :: "expr list \<Rightarrow> error + string list"
where
  "walk_expression (BinOp left op right) = walk_bin_op left op right"
| "walk_expression (BoolOp op vals) = Inl (AttributeError ''BoolOp'' ''left'')"
| "walk_expression (Compare left ops comparators) = walk_comp_op left ops comparators"
| "walk_expression (UnaryOp op operand) = walk_unary_op op operand"
| "walk_expression (Lambda as body) = walk_lambda as body"
| "walk_expression (Call func as) = walk_call func as"
| "walk_expression (Num n) = walk_num n"
| "walk_expression (Str s) = walk_str s"
| "walk_expression (Name ident) = walk_name ident"
| "walk_expression (OtherExpr kind a) = Inl (UnsupportedExpression kind)"
| "walk_bin_op left op right =
    (case walk_expression left of Inl e \<Rightarrow> Inl e | Inr l \<Rightarrow>
     (case get_bin_op_symbol op of Inl e \<Rightarrow> Inl e | Inr symb \<Rightarrow>
      (case walk_expression right of Inl e \<Rightarrow> Inl e | Inr r \<Rightarrow>
        Inr (l @ '' '' @ symb @ '' '' @ r))))"
| "walk_comp_op left ops comparators =
    (case walk_expression left of Inl e \<Rightarrow> Inl e | Inr l \<Rightarrow>
     (case walk_comp_items ops comparators of Inl e \<Rightarrow> Inl e | Inr items \<Rightarrow>
        Inr (l @ '' '' @ join '' '' items)))"
| "walk_comp_items ops [] = Inr []"
| "walk_comp_items [] (c # cs) = Inl IndexError"
| "walk_comp_items (op # ops) (c # cs) =
    (case get_bin_op_symbol op of Inl e \<Rightarrow> Inl e | Inr symb \<Rightarrow>
     (case walk_expression c of Inl e \<Rightarrow> Inl e | Inr r \<Rightarrow>
      (case walk_comp_items ops cs of Inl e \<Rightarrow> Inl e | Inr items \<Rightarrow>
        Inr ((symb @ '' '' @ r) # items))))"
| "walk_unary_op op operand =
    (case walk_expression operand of Inl e \<Rightarrow> Inl e | Inr t \<Rightarrow>
        Inr (class_name op @ '' '' @ t))"
| "walk_lambda as body =
    (case walk_expression body of Inl e \<Rightarrow> Inl e | Inr t \<Rightarrow>
        Inr (''('' @ walk_argument_list as @ '') => '' @ t))"
| "walk_call func as =
    (case walk_expression func of Inl e \<Rightarrow> Inl e | Inr f \<Rightarrow>
     (case walk_expression_list as of Inl e \<Rightarrow> Inl e | Inr a \<Rightarrow>
        Inr (lookup_call_builtins f @ ''('' @ a @ '')'')))"
| "walk_expression_list es =
    (case walk_expression_items es of Inl e \<Rightarrow> Inl e | Inr items \<Rightarrow>
        Inr (join '', '' items))"
| "walk_expression_items [] = Inr []"
| "walk_expression_items (x # xs) =
    (case walk_expression x of Inl e \<Rightarrow> Inl e | Inr t \<Rightarrow>
     (case walk_expression_items xs of Inl e \<Rightarrow> Inl e | Inr ts \<Rightarrow> Inr (t # ts)))"
  by pat_completeness auto

termination
  by (relation "measure
        (case_sum
          (case_sum
            (case_sum (\<lambda>e. 4 * size e)
                      (\<lambda>(l, op, r). 4 * (size l + size r) + 3))
            (case_sum (\<lambda>(l, ops, cs). 4 * (size l + size_list size cs) + 3)
                      (\<lambda>(ops, cs). 4 * size_list size cs + 1)))
          (case_sum
            (case_sum (\<lambda>(op, e). 4 * size e + 3)
                      (\<lambda>(a, e). 4 * size e + 3))
            (case_sum (\<lambda>(f, as). 4 * (size f + size_list size as) + 3)
              (case_sum (\<lambda>es. 4 * size_list size es + 2)
                        (\<lambda>es. 4 * size_list size es + 1)))))")
     auto

section \<open>Type inference\<close>

text \<open>
  The cases are tried in the order of the source. The last branch reads
  \<^verbatim>\<open>expression.value\<close> and infers again on what it holds; a node without that attribute
  raises there. \<^verbatim>\<open>Return\<close>, \<^verbatim>\<open>Assign\<close> and \<^verbatim>\<open>Expr\<close> have the attribute.
\<close>

function (sequential) get_expression_return_type :: "node \<Rightarrow> error + string" where
  "get_expression_return_type (ExprNode (Num n)) = Inr ''int''"
| "get_expression_return_type (ExprNode (Str s)) = Inr ''string''"
| "get_expression_return_type (ExprNode (Name ident)) = Inr ''dynamic''"
| "get_expression_return_type (ExprNode (Call func as)) = Inr ''dynamic''"
| "get_expression_return_type (ExprNode (BinOp left op right)) = Inr ''dynamic''"
| "get_expression_return_type (ExprNode (Compare left ops comparators)) = Inr ''bool''"
| "get_expression_return_type (ExprNode (UnaryOp op operand)) = Inr ''dynamic''"
| "get_expression_return_type (ExprNode (Lambda as body)) = Inr ''dynamic''"
| "get_expression_return_type (StmtNode (FunctionDef name as body returns)) = Inr ''dynamic''"
| "get_expression_return_type NoneNode = Inr ''dynamic''"
| "get_expression_return_type (ExprNode (BoolOp op vals)) =
     Inl (AttributeError ''BoolOp'' ''value'')"
| "get_expression_return_type (ExprNode (OtherExpr kind NoAttr)) =
     Inl (AttributeError kind ''value'')"
| "get_expression_return_type (ExprNode (OtherExpr kind AttrNone)) =
     get_expression_return_type NoneNode"
| "get_expression_return_type (ExprNode (OtherExpr kind (AttrObject ty))) =
     Inl (AttributeError ty ''value'')"
| "get_expression_return_type (ExprNode (OtherExpr kind (AttrNode e))) =
     get_expression_return_type (ExprNode e)"
| "get_expression_return_type (StmtNode (ClassDef name bases body)) =
     Inl (AttributeError ''ClassDef'' ''value'')"
| "get_expression_return_type (StmtNode (Return None)) =
     get_expression_return_type NoneNode"
| "get_expression_return_type (StmtNode (Return (Some e))) =
     get_expression_return_type (ExprNode e)"
| "get_expression_return_type (StmtNode (Assign targets v)) =
     get_expression_return_type (ExprNode v)"
| "get_expression_return_type (StmtNode (For target iter body orelse)) =
     Inl (AttributeError ''For'' ''value'')"
| "get_expression_return_type (StmtNode (While test body orelse)) =
     Inl (AttributeError ''While'' ''value'')"
| "get_expression_return_type (StmtNode (If_stmt test body orelse)) =
     Inl (AttributeError ''If'' ''value'')"
| "get_expression_return_type (StmtNode (Expr e)) =
     get_expression_return_type (ExprNode e)"
| "get_expression_return_type (StmtNode (OtherStmt kind NoAttr)) =
     Inl (AttributeError kind ''value'')"
| "get_expression_return_type (StmtNode (OtherStmt kind AttrNone)) =
     get_expression_return_type NoneNode"
| "get_expression_return_type (StmtNode (OtherStmt kind (AttrObject ty))) =
     Inl (AttributeError ty ''value'')"
| "get_expression_return_type (StmtNode (OtherStmt kind (AttrNode e))) =
     get_expression_return_type (ExprNode e)"
  by pat_completeness auto

termination
  by (relation "inv_image (less_than <*lex*> less_than)
        (\<lambda>n. case n of NoneNode \<Rightarrow> (0, 0) | ExprNode e \<Rightarrow> (1, size e)
              | StmtNode s \<Rightarrow> (2, 0))")
     auto

section \<open>Statements\<close>

text \<open>
  \<^verbatim>\<open>walk_expression\<close> on a field that may hold \<^verbatim>\<open>None\<close>: \<^verbatim>\<open>None\<close> is an instance of
  none of the nine classes, so the last branch raises with the type of \<^verbatim>\<open>None\<close>.
\<close>

definition walk_expression_or_none :: "expr option \<Rightarrow> error + string" where
  "walk_expression_or_none v =
    (case v of None \<Rightarrow> Inl (UnsupportedExpression ''NoneType'')
     | Some e \<Rightarrow> walk_expression e)"

definition walk_return :: "expr option \<Rightarrow> error + string" where
  "walk_return v =
    (case walk_expression_or_none v of Inl e \<Rightarrow> Inl e | Inr t \<Rightarrow>
        Inr (''return '' @ t @ '';''))"

text \<open>\<^verbatim>\<open>targets[0]\<close> raises on an empty list.\<close>

definition walk_assign :: "expr list \<Rightarrow> expr \<Rightarrow> error + string" where
  "walk_assign targets v =
    (case get_expression_return_type (ExprNode v) of Inl e \<Rightarrow> Inl e | Inr ty \<Rightarrow>
     (case targets of [] \<Rightarrow> Inl IndexError | target # rest \<Rightarrow>
      (case walk_expression target of Inl e \<Rightarrow> Inl e | Inr t \<Rightarrow>
       (case walk_expression v of Inl e \<Rightarrow> Inl e | Inr val \<Rightarrow>
          Inr (ty @ '' '' @ t @ '' = '' @ val @ '';\<newline>'')))))"

text \<open>
  \<^verbatim>\<open>walk_class_def\<close> passes the list \<^verbatim>\<open>class_def.bases\<close>, and \<^verbatim>\<open>walk_base_class_list\<close>
  reads the attribute \<^verbatim>\<open>bases\<close> of what it is given: of a Python list, which has none.
\<close>

definition walk_base_class_list :: "expr list \<Rightarrow> error + string" where
  "walk_base_class_list base_class_list = Inl (AttributeError ''list'' ''bases'')"

text \<open>\<open>walk_statement_items\<close> is the list comprehension of \<^verbatim>\<open>walk_statements\<close>.\<close>

function (sequential) walk_statement :: "stmt \<Rightarrow> error + string"
  and walk_function_def :: "string \<Rightarrow> arguments \<Rightarrow> stmt list \<Rightarrow> expr option \<Rightarrow> error + string"
  and walk_class_def :: "string \<Rightarrow> expr list \<Rightarrow> stmt list \<Rightarrow> error + string"
  and walk_class_body :: "stmt list \<Rightarrow> error + string"
  and walk_for :: "expr \<Rightarrow> expr \<Rightarrow> stmt list \<Rightarrow> stmt list \<Rightarrow> error + string"
  and walk_while :: "expr \<Rightarrow> stmt list \<Rightarrow> stmt list \<Rightarrow> error + string"
  and walk_if :: "expr \<Rightarrow> stmt list \<Rightarrow> stmt list \<Rightarrow> error + string"
  and walk_statements :: "stmt list \<Rightarrow> error + string"
  and walk_statement_items :: "stmt list \<Rightarrow> error + string list"
where
  "walk_statement (FunctionDef name as body returns) = walk_function_def name as body returns"
| "walk_statement (ClassDef name bases body) = walk_class_def name bases body"
| "walk_statement (Return v) = walk_return v"
| "walk_statement (Assign targets v) = walk_assign targets v"
| "walk_statement (For target iter body orelse) = walk_for target iter body orelse"
| "walk_statement (While test body orelse) = walk_while test body orelse"
| "walk_statement (If_stmt test body orelse) = walk_if test body orelse"
| "walk_statement (Expr v) =
    (case walk_expression v of Inl e \<Rightarrow> Inl e | Inr t \<Rightarrow> Inr (t @ '';\<newline>''))"
| "walk_statement (OtherStmt kind a) = Inl (UnsupportedStatement kind)"
| "walk_function_def name as body returns =
    (case get_expression_return_type (case returns of None \<Rightarrow> NoneNode | Some e \<Rightarrow> ExprNode e)
     of Inl e \<Rightarrow> Inl e | Inr return_type \<Rightarrow>
     (case walk_statements body of Inl e \<Rightarrow> Inl e | Inr b \<Rightarrow>
        Inr (return_type @ '' '' @ name @ ''('' @ walk_argument_list as @ '') {\<newline>''
             @ b @ ''\<newline>}'')))"
| "walk_class_def name bases body =
    (case walk_base_class_list bases of Inl e \<Rightarrow> Inl e | Inr base_class_list \<Rightarrow>
     (case walk_class_body body of Inl e \<Rightarrow> Inl e | Inr b \<Rightarrow>
        Inr (''class '' @ name @ '' : '' @ base_class_list @ '' {\<newline>'' @ b @ ''\<newline>}'')))"
| "walk_class_body class_body = walk_statements class_body"
| "walk_for target iter body orelse =
    (case walk_expression target of Inl e \<Rightarrow> Inl e | Inr t \<Rightarrow>
     (case walk_expression iter of Inl e \<Rightarrow> Inl e | Inr i \<Rightarrow>
      (case walk_statements body of Inl e \<Rightarrow> Inl e | Inr b \<Rightarrow>
        Inr (''for ('' @ t @ '' = '' @ i @ '') {\<newline>'' @ b @ ''\<newline>}''))))"
| "walk_while test body orelse =
    (case walk_expression test of Inl e \<Rightarrow> Inl e | Inr t \<Rightarrow>
     (case walk_statements body of Inl e \<Rightarrow> Inl e | Inr b \<Rightarrow>
        Inr (''while ('' @ t @ '') {\<newline>'' @ b @ ''\<newline>}'')))"
| "walk_if test body orelse =
    (if length orelse = 0 then
      (case walk_expression test of Inl e \<Rightarrow> Inl e | Inr t \<Rightarrow>
       (case walk_statements body of Inl e \<Rightarrow> Inl e | Inr b \<Rightarrow>
          Inr (''if ('' @ t @ '') {\<newline>'' @ [CHR 0x09] @ b @ ''}\<newline>'')))
     else
      (case walk_expression test of Inl e \<Rightarrow> Inl e | Inr t \<Rightarrow>
       (case walk_statements body of Inl e \<Rightarrow> Inl e | Inr b \<Rightarrow>
        (case walk_statements orelse of Inl e \<Rightarrow> Inl e | Inr el \<Rightarrow>
          Inr (''if ('' @ t @ '') {\<newline>'' @ [CHR 0x09] @ b @ ''}\<newline>''
               @ ''else {\<newline>'' @ [CHR 0x09] @ el @ ''}\<newline>'')))))"
| "walk_statements statements =
    (case walk_statement_items statements of Inl e \<Rightarrow> Inl e | Inr items \<Rightarrow>
        Inr (join ''\<newline>'' items))"
| "walk_statement_items [] = Inr []"
| "walk_statement_items (x # xs) =
    (case walk_statement x of Inl e \<Rightarrow> Inl e | Inr t \<Rightarrow>
     (case walk_statement_items xs of Inl e \<Rightarrow> Inl e | Inr ts \<Rightarrow> Inr (t # ts)))"
  by pat_completeness auto

termination
  by (relation "measure
        (case_sum
          (case_sum
            (case_sum (\<lambda>s. 4 * size s)
                      (\<lambda>(name, as, body, returns). 4 * size_list size body + 3))
            (case_sum (\<lambda>(name, bases, body). 4 * size_list size body + 3)
                      (\<lambda>body. 4 * size_list size body + 2)))
          (case_sum
            (case_sum (\<lambda>(target, iter, body, orelse).
                          4 * (size_list size body + size_list size orelse) + 3)
                      (\<lambda>(test, body, orelse).
                          4 * (size_list size body + size_list size orelse) + 3))
            (case_sum (\<lambda>(test, body, orelse).
                          4 * (size_list size body + size_list size orelse) + 3)
              (case_sum (\<lambda>ss. 4 * size_list size ss + 1)
                        (\<lambda>ss. 4 * size_list size ss)))))")
     auto

section \<open>The driver\<close>

text \<open>The loop of \<^verbatim>\<open>walk_tree\<close>, with the text gathered so far.\<close>

fun walk_tree_loop :: "string \<Rightarrow> stmt list \<Rightarrow> error + string" where
  "walk_tree_loop csharp [] = Inr csharp"
| "walk_tree_loop csharp (statement # rest) =
    (case walk_statement statement of Inl e \<Rightarrow> Inl e
     | Inr t \<Rightarrow> walk_tree_loop (csharp @ t) rest)"

fun walk_tree :: "module \<Rightarrow> error + string" where
  "walk_tree (Module body) = walk_tree_loop [] body"

text \<open>
  \<^verbatim>\<open>emit_csharp\<close> writes to the file at \<open>filepath\<close>. The files are a map from path to
  content; the result is the files after the call and the error that left the
  \<^verbatim>\<open>with\<close> block, if one did. Opening the file empties it, and the two writes before
  \<^verbatim>\<open>walk_tree\<close> stay in it when \<^verbatim>\<open>walk_tree\<close> raises.
\<close>

definition emit_csharp ::
  "(string \<rightharpoonup> string) \<Rightarrow> string \<Rightarrow> module \<Rightarrow> (string \<rightharpoonup> string) \<times> error option" where
  "emit_csharp files filepath tree =
    (let opening = ''using System;\<newline>''
           @ ''public class Program {\<newline>'' @ [CHR 0x09]
           @ ''public static void Main(string[] args) {\<newline>''
     in case walk_tree tree of
          Inl e \<Rightarrow> (files(filepath \<mapsto> opening), Some e)
        | Inr t \<Rightarrow> (files(filepath \<mapsto> opening @ t @ ''}\<newline>}\<newline>''), None))"

section \<open>Node classes\<close>





text \<open>The eighteen operator classes that \<^verbatim>\<open>get_bin_op_symbol\<close> has a branch for.\<close>

definition table_ops :: "op_tag list" where
  "table_ops = [Add, Sub, Mult, Div, Mod, Pow_op, FloorDiv, LShift, RShift,
                BitOr, BitXor, BitAnd, Eq, NotEq, Lt, LtE, Gt, GtE]"


text \<open>Whether \<open>p\<close> occurs in \<open>text\<close> as a run of consecutive characters.\<close>

fun starts_with :: "string \<Rightarrow> string \<Rightarrow> bool" where
  "starts_with [] txt = True"
| "starts_with (p # ps) [] = False"
| "starts_with (p # ps) (c # cs) = (p = c \<and> starts_with ps cs)"

fun occurs_in :: "string \<Rightarrow> string \<Rightarrow> bool" where
  "occurs_in p [] = (p = [])"
| "occurs_in p (c # cs) = (starts_with p (c # cs) \<or> occurs_in p cs)"

section \<open>Auxiliary facts\<close>










text \<open>The loop of \<^verbatim>\<open>walk_tree\<close> appends the texts of the statements in their order.\<close>

lemma walk_tree_loop_concat:
  "list_all2 (\<lambda>s t. walk_statement s = Inr t) body texts
   \<Longrightarrow> walk_tree_loop csharp body = Inr (csharp @ concat texts)"
  by (induction body texts arbitrary: csharp rule: list_all2_induct) simp_all

section \<open>The claims\<close>

text \<open>
  Claim C1, as the code has it. The claim says that a \<open>BoolOp\<close> is rendered as left
  operand, operator symbol, right operand. \<^verbatim>\<open>walk_expression\<close> does hand a \<open>BoolOp\<close> to
  \<^verbatim>\<open>walk_bin_op\<close>, but the node has the fields \<^verbatim>\<open>op\<close> and \<^verbatim>\<open>values\<close> only: on
  \<^verbatim>\<open>a and b\<close>, and on every other \<open>BoolOp\<close>, reading \<^verbatim>\<open>bin_op.left\<close> raises
  \<^verbatim>\<open>AttributeError\<close> and no text is returned.
\<close>

theorem walk_expression_BoolOp_raises:
  "walk_expression (BoolOp And [Name ''a'', Name ''b'']) = Inl (AttributeError ''BoolOp'' ''left'')
   \<and> (\<forall>op vals. walk_expression (BoolOp op vals) = Inl (AttributeError ''BoolOp'' ''left''))"
  by simp




text \<open>
  Claim C3. \<^verbatim>\<open>get_bin_op_symbol\<close> maps the eighteen operator classes of the table to
  their symbols, \<^verbatim>\<open>**\<close> and \<^verbatim>\<open>//\<close> as they are, and fails with the unsupported-operator
  error on every other operator class.
\<close>

theorem get_bin_op_symbol_table:
  "get_bin_op_symbol Add = Inr ''+'' \<and> get_bin_op_symbol Sub = Inr ''-''
   \<and> get_bin_op_symbol Mult = Inr ''*'' \<and> get_bin_op_symbol Div = Inr ''/''
   \<and> get_bin_op_symbol Mod = Inr ''%'' \<and> get_bin_op_symbol Pow_op = Inr ''**''
   \<and> get_bin_op_symbol FloorDiv = Inr ''//'' \<and> get_bin_op_symbol LShift = Inr ''<<''
   \<and> get_bin_op_symbol RShift = Inr ''>>'' \<and> get_bin_op_symbol BitOr = Inr ''|''
   \<and> get_bin_op_symbol BitXor = Inr ''^'' \<and> get_bin_op_symbol BitAnd = Inr ''&''
   \<and> get_bin_op_symbol Eq = Inr ''=='' \<and> get_bin_op_symbol NotEq = Inr ''!=''
   \<and> get_bin_op_symbol Lt = Inr ''<'' \<and> get_bin_op_symbol LtE = Inr ''<=''
   \<and> get_bin_op_symbol Gt = Inr ''>'' \<and> get_bin_op_symbol GtE = Inr ''>=''
   \<and> (op \<notin> set table_ops \<longrightarrow> get_bin_op_symbol op = Inl (UnsupportedOperator (class_name op)))"
  by (cases op) (simp_all add: get_bin_op_symbol_def table_ops_def)

theorem get_bin_op_symbol_table_witness:
  "MatMult \<notin> set table_ops \<and> get_bin_op_symbol MatMult = Inl (UnsupportedOperator ''MatMult'')
   \<and> And \<notin> set table_ops \<and> get_bin_op_symbol And = Inl (UnsupportedOperator ''And'')"
  using get_bin_op_symbol_table [of MatMult] get_bin_op_symbol_table [of And]
  by (simp add: table_ops_def)

text \<open>
  Claim C4. The inferred type depends on the class of the node only: \<^verbatim>\<open>int\<close> for a
  numeric literal, \<^verbatim>\<open>string\<close> for a string literal, \<^verbatim>\<open>bool\<close> for a comparison,
  \<^verbatim>\<open>dynamic\<close> for a name, a call, a binary operation, a unary operation, a lambda and a
  function definition, and \<^verbatim>\<open>dynamic\<close> for \<^verbatim>\<open>None\<close>.
\<close>

theorem get_expression_return_type_shape:
  "get_expression_return_type (ExprNode (Num n)) = Inr ''int''
   \<and> get_expression_return_type (ExprNode (Str s)) = Inr ''string''
   \<and> get_expression_return_type (ExprNode (Compare left ops comparators)) = Inr ''bool''
   \<and> get_expression_return_type (ExprNode (Name ident)) = Inr ''dynamic''
   \<and> get_expression_return_type (ExprNode (Call func as)) = Inr ''dynamic''
   \<and> get_expression_return_type (ExprNode (BinOp l op r)) = Inr ''dynamic''
   \<and> get_expression_return_type (ExprNode (UnaryOp uop operand)) = Inr ''dynamic''
   \<and> get_expression_return_type (ExprNode (Lambda params body)) = Inr ''dynamic''
   \<and> get_expression_return_type (StmtNode (FunctionDef name params stmts returns)) = Inr ''dynamic''
   \<and> get_expression_return_type NoneNode = Inr ''dynamic''"
  by simp

text \<open>
  Claim C5. \<^verbatim>\<open>lookup_call_builtins\<close> returns a name for every identifier, maps
  \<^verbatim>\<open>print\<close> and \<^verbatim>\<open>input\<close> to the console calls, leaves every other identifier as it is,
  and applying it twice gives what applying it once gives.
\<close>

theorem lookup_call_builtins_idempotent:
  "lookup_call_builtins (lookup_call_builtins x) = lookup_call_builtins x
   \<and> lookup_call_builtins ''print'' = ''Console.WriteLine''
   \<and> lookup_call_builtins ''input'' = ''Console.ReadLine''
   \<and> (x \<noteq> ''print'' \<longrightarrow> x \<noteq> ''input'' \<longrightarrow> lookup_call_builtins x = x)"
  by (simp add: lookup_call_builtins_def)

theorem lookup_call_builtins_idempotent_witness:
  "''len'' \<noteq> ''print'' \<and> ''len'' \<noteq> ''input'' \<and> lookup_call_builtins ''len'' = ''len''
   \<and> lookup_call_builtins (lookup_call_builtins ''len'') = lookup_call_builtins ''len''"
  using lookup_call_builtins_idempotent [of "''len''"] by simp

text \<open>
  Claim C6, amended. When the type of the value is inferred and the first target and the
  value are rendered, an assignment is rendered as the inferred type, a space, the first
  target, \<^verbatim>\<open> = \<close>, the value, and a semicolon followed by a newline; the targets after
  the first are not read.
\<close>

theorem walk_assign_first_target:
  "get_expression_return_type (ExprNode v) = Inr ty \<longrightarrow> walk_expression target = Inr t \<longrightarrow>
   walk_expression v = Inr val \<longrightarrow>
   walk_statement (Assign (target # rest) v) = Inr (ty @ '' '' @ t @ '' = '' @ val @ '';\<newline>'')"
  by (simp add: walk_assign_def)

theorem walk_assign_first_target_witness:
  "get_expression_return_type (ExprNode (Num (IntNum 1))) = Inr ''int''
   \<and> walk_expression (Name ''x'') = Inr ''x''
   \<and> walk_expression (Num (IntNum 1)) = Inr ''1''
   \<and> walk_statement (Assign [Name ''x''] (Num (IntNum 1))) = Inr ''int x = 1;\<newline>''
   \<and> walk_statement (Assign [Name ''x'', Name ''y''] (Num (IntNum 1))) = Inr ''int x = 1;\<newline>''"
  using walk_assign_first_target [where v = "Num (IntNum 1)" and ty = "''int''"
           and target = "Name ''x''" and t = "''x''" and val = "''1''" and rest = "[]"]
        walk_assign_first_target [where v = "Num (IntNum 1)" and ty = "''int''"
           and target = "Name ''x''" and t = "''x''" and val = "''1''" and rest = "[Name ''y'']"]
  by (simp add: walk_name_def walk_num_def str_number_def int_max_str_digits_def str_nat.simps)

text \<open>
  Claim C6 as stated fails: the text for \<^verbatim>\<open>x = 1\<close> does not end with the semicolon,
  a newline follows it.
\<close>

theorem walk_assign_newline_counterexample:
  "walk_statement (Assign [Name ''x''] (Num (IntNum 1))) = Inr ''int x = 1;\<newline>''
   \<and> walk_statement (Assign [Name ''x''] (Num (IntNum 1))) \<noteq> Inr ''int x = 1;''"
  by (simp add: walk_assign_def walk_name_def walk_num_def str_number_def int_max_str_digits_def str_nat.simps)

text \<open>
  Claim C7. When the test and the body are rendered, a conditional with no else-branch is
  rendered as \<^verbatim>\<open>if (\<close>, the test, \<^verbatim>\<open>) {\<close>, a newline and a tab, the body, \<^verbatim>\<open>}\<close> and a
  newline; with an else-branch the same text is followed by \<^verbatim>\<open>else {\<close>, a newline and a
  tab, the else-branch, \<^verbatim>\<open>}\<close> and a newline.
\<close>

theorem walk_if_renders:
  "(walk_expression test = Inr t \<longrightarrow> walk_statements body = Inr b \<longrightarrow>
      walk_statement (If_stmt test body []) =
        Inr (''if ('' @ t @ '') {\<newline>'' @ [CHR 0x09] @ b @ ''}\<newline>''))
   \<and> (walk_expression test = Inr t \<longrightarrow> walk_statements body = Inr b \<longrightarrow>
       orelse \<noteq> [] \<longrightarrow> walk_statements orelse = Inr el \<longrightarrow>
      walk_statement (If_stmt test body orelse) =
        Inr (''if ('' @ t @ '') {\<newline>'' @ [CHR 0x09] @ b @ ''}\<newline>''
             @ ''else {\<newline>'' @ [CHR 0x09] @ el @ ''}\<newline>''))"
  by (simp del: walk_statements.simps)

text \<open>
  The scenario of the claim, \<^verbatim>\<open>if (a < b): return a\<close>, without and with an else-branch.
\<close>

theorem walk_if_renders_witness:
  "walk_expression (Compare (Name ''a'') [Lt] [Name ''b'']) = Inr ''a < b''
   \<and> walk_statements [Return (Some (Name ''a''))] = Inr ''return a;''
   \<and> walk_statement (If_stmt (Compare (Name ''a'') [Lt] [Name ''b'']) [Return (Some (Name ''a''))] [])
       = Inr (''if (a < b) {\<newline>'' @ [CHR 0x09] @ ''return a;}\<newline>'')
   \<and> [Return (Some (Name ''b''))] \<noteq> []
   \<and> walk_statements [Return (Some (Name ''b''))] = Inr ''return b;''
   \<and> walk_statement (If_stmt (Compare (Name ''a'') [Lt] [Name ''b'']) [Return (Some (Name ''a''))]
          [Return (Some (Name ''b''))])
       = Inr (''if (a < b) {\<newline>'' @ [CHR 0x09] @ ''return a;}\<newline>''
              @ ''else {\<newline>'' @ [CHR 0x09] @ ''return b;}\<newline>'')"
  using walk_if_renders [where test = "Compare (Name ''a'') [Lt] [Name ''b'']" and t = "''a < b''"
           and body = "[Return (Some (Name ''a''))]" and b = "''return a;''"
           and orelse = "[Return (Some (Name ''b''))]" and el = "''return b;''"]
  by (simp add: walk_return_def walk_expression_or_none_def walk_name_def get_bin_op_symbol_def)

text \<open>
  Claim C8. A unary operation is rendered as the name of the class of its operator, a
  space, and the operand; an error of the operand is passed on.
\<close>

theorem walk_unary_op_tag_name:
  "(walk_expression operand = Inr t \<longrightarrow>
      walk_expression (UnaryOp op operand) = Inr (class_name op @ '' '' @ t))
   \<and> (walk_expression operand = Inl e \<longrightarrow> walk_expression (UnaryOp op operand) = Inl e)"
  by simp

theorem walk_unary_op_tag_name_witness:
  "walk_expression (Name ''a'') = Inr ''a''
   \<and> walk_expression (UnaryOp USub (Name ''a'')) = Inr ''USub a''
   \<and> walk_expression (OtherExpr ''List'' NoAttr) = Inl (UnsupportedExpression ''List'')
   \<and> walk_expression (UnaryOp Not_op (OtherExpr ''List'' NoAttr)) = Inl (UnsupportedExpression ''List'')"
  using walk_unary_op_tag_name [where operand = "Name ''a''" and t = "''a''" and op = USub]
        walk_unary_op_tag_name [where operand = "OtherExpr ''List'' NoAttr"
           and e = "UnsupportedExpression ''List''" and op = Not_op]
  by (simp add: walk_name_def)

text \<open>
  Claim C9, amended. When every top-level statement is rendered, the file written holds
  \<^verbatim>\<open>using System;\<close>, the opening of a public class \<^verbatim>\<open>Program\<close> (not a static one) and of
  its static method \<^verbatim>\<open>Main\<close>, the texts of the statements in their order with nothing
  between them, and the two closing braces.
\<close>

theorem emit_csharp_boilerplate:
  "list_all2 (\<lambda>s t. walk_statement s = Inr t) body texts \<longrightarrow>
   emit_csharp files filepath (Module body) =
     (files(filepath \<mapsto>
        ''using System;\<newline>''
        @ ''public class Program {\<newline>'' @ [CHR 0x09]
        @ ''public static void Main(string[] args) {\<newline>''
        @ concat texts
        @ ''}\<newline>}\<newline>''), None)"
  by (simp add: emit_csharp_def walk_tree_loop_concat)

theorem emit_csharp_boilerplate_witness:
  "list_all2 (\<lambda>s t. walk_statement s = Inr t)
     [Assign [Name ''x''] (Num (IntNum 1)), Expr (Call (Name ''print'') [Name ''x''])]
     [''int x = 1;\<newline>'', ''Console.WriteLine(x);\<newline>'']
   \<and> emit_csharp Map.empty ''out.cs''
        (Module [Assign [Name ''x''] (Num (IntNum 1)), Expr (Call (Name ''print'') [Name ''x''])]) =
      ([''out.cs'' \<mapsto>
        ''using System;\<newline>''
        @ ''public class Program {\<newline>'' @ [CHR 0x09]
        @ ''public static void Main(string[] args) {\<newline>''
        @ ''int x = 1;\<newline>'' @ ''Console.WriteLine(x);\<newline>''
        @ ''}\<newline>}\<newline>''], None)"
  using emit_csharp_boilerplate [where body = "[Assign [Name ''x''] (Num (IntNum 1)),
            Expr (Call (Name ''print'') [Name ''x''])]"
          and texts = "[''int x = 1;\<newline>'', ''Console.WriteLine(x);\<newline>'']"
          and files = Map.empty and filepath = "''out.cs''"]
  by (simp add: walk_assign_def walk_name_def walk_num_def str_number_def int_max_str_digits_def str_nat.simps
        lookup_call_builtins_def)

text \<open>
  Claim C9 as stated fails: on the empty module the text written declares
  \<^verbatim>\<open>public class Program\<close>, and the words \<^verbatim>\<open>static class\<close> occur nowhere in it.
\<close>

theorem emit_csharp_static_class_counterexample:
  "emit_csharp Map.empty ''out.cs'' (Module []) =
      ([''out.cs'' \<mapsto>
        ''using System;\<newline>''
        @ ''public class Program {\<newline>'' @ [CHR 0x09]
        @ ''public static void Main(string[] args) {\<newline>''
        @ ''}\<newline>}\<newline>''], None)
   \<and> \<not> occurs_in ''static class''
        (''using System;\<newline>''
        @ ''public class Program {\<newline>'' @ [CHR 0x09]
        @ ''public static void Main(string[] args) {\<newline>''
        @ ''}\<newline>}\<newline>'')
   \<and> occurs_in ''public class Program''
        (''using System;\<newline>''
        @ ''public class Program {\<newline>'' @ [CHR 0x09]
        @ ''public static void Main(string[] args) {\<newline>''
        @ ''}\<newline>}\<newline>'')"
  by (simp add: emit_csharp_def)

text \<open>
  Claim C10. A comparison with no comparator is rendered as its left operand followed by
  one space; an error of the left operand is passed on.
\<close>

theorem walk_comp_op_no_pairs:
  "(walk_expression left = Inr l \<longrightarrow> walk_expression (Compare left ops []) = Inr (l @ '' ''))
   \<and> (walk_expression left = Inl e \<longrightarrow> walk_expression (Compare left ops []) = Inl e)"
  by simp

theorem walk_comp_op_no_pairs_witness:
  "walk_expression (Name ''a'') = Inr ''a''
   \<and> walk_expression (Compare (Name ''a'') [] []) = Inr ''a ''
   \<and> walk_expression (OtherExpr ''List'' NoAttr) = Inl (UnsupportedExpression ''List'')
   \<and> walk_expression (Compare (OtherExpr ''List'' NoAttr) [Lt] []) = Inl (UnsupportedExpression ''List'')"
  using walk_comp_op_no_pairs [where left = "Name ''a''" and l = "''a''" and ops = "[]"]
        walk_comp_op_no_pairs [where left = "OtherExpr ''List'' NoAttr" and ops = "[Lt]"
           and e = "UnsupportedExpression ''List''"]
  by (simp add: walk_name_def)

end
